theory Spec2Isabelle
  imports Complex_Main
begin

section \<open>Numeric arrays\<close>

text \<open>
  The program computes with numpy arrays of float64. In the embedding a float64 is a
  \<^typ>\<open>real\<close>: a one-dimensional array is a list of reals, a matrix the list of its rows.
  The arithmetic of the solver and of the driver is taken exact, with two exceptions, where
  rounding decides a property of the program: the norm of the trust-region test
  (\<open>numpy.linalg.norm\<close>) and the differences that form the shifted constraints are float64
  operations, modelled with the rounding function \<open>float64\<close> below. Overflow and NaN are
  outside this model. Where the source can leave the finite
  numbers (numpy's elementwise division by an entry that is zero yields inf or nan and goes
  on), the model stops with the error \<open>NonFinite\<close>; where Python raises, the model returns
  the corresponding error value. The assertions \<open>assertNoInfNaN\<close> of the input and output
  checkers hold of every value of this model and have no counterpart in it; of
  \<open>dyn_typing\<close> the model keeps the agreement of the shapes. The calls of \<open>options.output\<close>
  only report and are left out.
\<close>

type_synonym ndarray = "real list"
type_synonym matrix = "real list list"

datatype assertion =
    Hessian_not_up_to_date
  | Start_feasible
  | Direct_is_None
  | Direct_is_not_None
  | Fval_is_not_None
  | Size_is_not_None

datatype error =
    AssertionError assertion
  | ZeroDivisionError
  | UnboundLocalError
  | ValueError
  | TypeError
  | NonFinite

datatype ('r, 's) flow = Return 'r | Continue 's

definition dot :: "ndarray \<Rightarrow> ndarray \<Rightarrow> real" where
  "dot u v = sum_list (map2 (*) u v)"

definition matvec :: "matrix \<Rightarrow> ndarray \<Rightarrow> ndarray" where
  "matvec M v = map (\<lambda>row. dot row v) M"

definition vecmat :: "ndarray \<Rightarrow> matrix \<Rightarrow> ndarray" where
  "vecmat v M = map (\<lambda>col. dot v col) (transpose M)"

definition vadd :: "ndarray \<Rightarrow> ndarray \<Rightarrow> ndarray" where
  "vadd u v = map2 (+) u v"

definition vsub :: "ndarray \<Rightarrow> ndarray \<Rightarrow> ndarray" where
  "vsub u v = map2 (-) u v"

definition smul :: "real \<Rightarrow> ndarray \<Rightarrow> ndarray" where
  "smul a v = map ((*) a) v"

definition vneg :: "ndarray \<Rightarrow> ndarray" where
  "vneg v = map uminus v"

definition zeros :: "nat \<Rightarrow> ndarray" where
  "zeros n = replicate n 0"

text \<open>
  \<open>r / R\<close> on arrays: elementwise, and non-finite as soon as an entry of \<open>R\<close> is zero.
  The non-finite entries then reach either the returned direction or the returned step, and
  the output check of the solver rejects both; the model reports such a run as \<open>NonFinite\<close>.
\<close>

definition vdiv :: "ndarray \<Rightarrow> ndarray \<Rightarrow> error + ndarray" where
  "vdiv u R = (if 0 \<in> set R then Inl NonFinite else Inr (map2 (/) u R))"

text \<open>\<open>numpy.max(numpy.abs(z))\<close>; \<open>numpy.max\<close> raises ValueError on an empty array.\<close>

fun max_abs :: "ndarray \<Rightarrow> error + real" where
  "max_abs [] = Inl ValueError"
| "max_abs (a # as) = Inr (fold (\<lambda>b m. max m \<bar>b\<bar>) as \<bar>a\<bar>)"

text \<open>\<open>norm2\<close> of \<open>pcg\<close> and the \<open>size\<close> of a status: \<open>math.sqrt(float(x @ x))\<close>.\<close>

definition norm2 :: "ndarray \<Rightarrow> real" where
  "norm2 v = sqrt (dot v v)"

text \<open>\<open>numpy.finfo(numpy.float64).eps\<close>\<close>

definition eps :: real where
  "eps = 1 / 2 ^ 52"

section \<open>Rounding to float64\<close>

text \<open>
  \<open>rne\<close> rounds a real to the nearest integer, a tie to the even one. \<open>float64 x\<close> is the
  float64 nearest to \<open>x\<close>, a tie to the even significand: in the binade
  \<open>2\<^sup>k \<le> |x| < 2\<^sup>k\<^sup>+\<^sup>1\<close> the float64 numbers are the multiples of \<open>2\<^sup>k\<^sup>-\<^sup>5\<^sup>2\<close>, and below
  \<open>2\<^sup>-\<^sup>1\<^sup>0\<^sup>2\<^sup>2\<close> the multiples of \<open>2\<^sup>-\<^sup>1\<^sup>0\<^sup>7\<^sup>4\<close>. There is no overflow in the model.
\<close>

definition rne :: "real \<Rightarrow> int" where
  "rne y =
     (let f = \<lfloor>y\<rfloor>;
          d = y - of_int f
      in if d < 1 / 2 then f
         else if 1 / 2 < d then f + 1
         else if even f then f else f + 1)"

definition float64 :: "real \<Rightarrow> real" where
  "float64 x =
     (if x = 0 then 0
      else
        let e = max \<lfloor>log 2 \<bar>x\<bar>\<rfloor> (- 1022) - 52
        in of_int (rne (x / 2 powi e)) * 2 powi e)"

text \<open>
  The library functions of numpy on float64 arrays that the program calls where rounding
  matters, \<open>numpy.linalg.norm\<close> of a vector and the product \<open>A @ x\<close>, are parameters of the
  model: the sources do not fix the order in which the library adds the products. The
  definitions below are the instances used on concrete inputs; they round every product and
  every sum, adding from left to right. \<open>numpy.linalg.norm\<close> of a real vector is the square
  root of its dot product with itself.
\<close>

definition float64_dot :: "ndarray \<Rightarrow> ndarray \<Rightarrow> real" where
  "float64_dot u v = foldl (\<lambda>s (a, b). float64 (s + float64 (a * b))) 0 (zip u v)"

definition float64_norm :: "ndarray \<Rightarrow> real" where
  "float64_norm v = float64 (sqrt (float64_dot v v))"

definition float64_matvec :: "matrix \<Rightarrow> ndarray \<Rightarrow> ndarray" where
  "float64_matvec M v = map (\<lambda>row. float64_dot row v) M"

text \<open>The Euclidean norm of a vector, in exact arithmetic.\<close>

definition euclidean_norm :: "ndarray \<Rightarrow> real" where
  "euclidean_norm v = sqrt (dot v v)"

section \<open>Constraints\<close>

text \<open>
  The bounds \<open>lb\<close> and \<open>ub\<close> may be infinite, so a bound is a finite real or one of the two
  infinities. \<open>lb - x\<close> subtracts a finite array from the bounds, in float64: the
  difference of two finite numbers is rounded, an infinite bound stays as it is.
  \<open>exact_bound_minus\<close> is the same difference without rounding.
\<close>

datatype bound = MInf | Fin real | PInf

type_synonym constraints = "matrix \<times> ndarray \<times> bound list \<times> bound list"

fun bound_minus :: "bound \<Rightarrow> real \<Rightarrow> bound" where
  "bound_minus MInf a = MInf"
| "bound_minus (Fin l) a = Fin (float64 (l - a))"
| "bound_minus PInf a = PInf"

fun exact_bound_minus :: "bound \<Rightarrow> real \<Rightarrow> bound" where
  "exact_bound_minus MInf a = MInf"
| "exact_bound_minus (Fin l) a = Fin (l - a)"
| "exact_bound_minus PInf a = PInf"

fun bound_le_real :: "bound \<Rightarrow> real \<Rightarrow> bool" where
  "bound_le_real MInf a = True"
| "bound_le_real (Fin l) a = (l \<le> a)"
| "bound_le_real PInf a = False"

fun real_le_bound :: "real \<Rightarrow> bound \<Rightarrow> bool" where
  "real_le_bound a MInf = False"
| "real_le_bound a (Fin u) = (a \<le> u)"
| "real_le_bound a PInf = True"

text \<open>
  The shape part of \<open>dyn_typing.dyn_check\<close>: \<open>g\<close> of shape \<open>(N,)\<close>, \<open>H\<close> of shape \<open>(N, N)\<close>,
  the constraints of shapes \<open>(nConstraints, N)\<close>, \<open>(nConstraints,)\<close>, \<open>(N,)\<close>, \<open>(N,)\<close>.
\<close>

definition shape_matrix :: "nat \<Rightarrow> nat \<Rightarrow> matrix \<Rightarrow> bool" where
  "shape_matrix m n M = (length M = m \<and> list_all (\<lambda>row. length row = n) M)"

fun shape_constraints :: "nat \<Rightarrow> constraints \<Rightarrow> bool" where
  "shape_constraints n (A, b, lb, ub) =
     (shape_matrix (length b) n A \<and> length lb = n \<and> length ub = n)"

section \<open>PCG flags\<close>

text \<open>
  Modelled from the spec: the enumeration \<open>PCG_Flag\<close> of \<open>optimizer._internals.pcg.flags\<close>,
  which is not among the sources; the spec lists its variants.
\<close>

datatype PCG_Flag =
    RESIDUAL_CONVERGENCE
  | NEGATIVE_CURVATURE
  | OUT_OF_TRUST_REGION
  | VIOLATE_CONSTRAINTS
  | POLICY_ONLY

section \<open>The PCG inner solver\<close>

text \<open>
  \<open>linneq.check\<close> belongs to another package; the solver takes it as the parameter
  \<open>check\<close>, and \<open>numpy.linalg.norm\<close> as the parameter \<open>linalg_norm\<close>. The variables carried
  round the loop are \<open>(p, r, z, direct, inner1)\<close>.
\<close>

type_synonym pcg_vars = "ndarray \<times> ndarray \<times> ndarray \<times> ndarray \<times> real"
type_synonym pcg_output = "ndarray \<times> ndarray option \<times> nat \<times> PCG_Flag"

text \<open>One pass through the body of \<open>for iter in range(n)\<close>.\<close>

fun pcg_iteration ::
  "(ndarray \<Rightarrow> real) \<Rightarrow> (ndarray \<Rightarrow> constraints \<Rightarrow> bool) \<Rightarrow>
   matrix \<Rightarrow> ndarray \<Rightarrow> constraints \<Rightarrow> real \<Rightarrow>
   nat \<Rightarrow> pcg_vars \<Rightarrow> error + (pcg_output, pcg_vars) flow" where
  "pcg_iteration linalg_norm check H R constraints delta iter (p, r, z, direct, inner1) =
     (case max_abs z of
        Inl e \<Rightarrow> Inl e
      | Inr m \<Rightarrow>
          if m < sqrt eps then Inr (Return (p, None, iter, RESIDUAL_CONVERGENCE))
          else
            let ww = matvec H direct;
                denom = dot direct ww
            in if denom \<le> 0 then Inr (Return (p, Some direct, iter, NEGATIVE_CURVATURE))
            else
              let alpha = inner1 / denom;
                  pnew = vadd p (smul alpha direct)
              in if linalg_norm pnew > delta
                 then Inr (Return (p, Some direct, iter, OUT_OF_TRUST_REGION))
              else if \<not> check pnew constraints
                 then Inr (Return (p, Some direct, iter, VIOLATE_CONSTRAINTS))
              else
                let r' = vsub r (smul alpha ww)
                in (case vdiv r' R of
                      Inl e \<Rightarrow> Inl e
                    | Inr z' \<Rightarrow>
                        let inner2 = inner1;
                            inner1' = dot r' z'
                        in if inner2 = 0 then Inl ZeroDivisionError
                           else
                             let beta = inner1' / inner2
                             in Inr (Continue
                                  (pnew, r', z', vadd z' (smul beta direct), inner1'))))"

text \<open>
  The \<open>for\<close> loop over the remaining indices. \<open>loop_var\<close> is the binding of the loop variable
  \<open>iter\<close>: \<open>None\<close> until the first pass. The return after the loop reads \<open>iter\<close>, which
  Python leaves bound to the last index, or unbound when the range was empty.
\<close>

fun pcg_for ::
  "(nat \<Rightarrow> pcg_vars \<Rightarrow> error + (pcg_output, pcg_vars) flow) \<Rightarrow>
   nat list \<Rightarrow> nat option \<Rightarrow> pcg_vars \<Rightarrow> error + pcg_output" where
  "pcg_for body [] loop_var (p, r, z, direct, inner1) =
     (case loop_var of
        None \<Rightarrow> Inl UnboundLocalError
      | Some iter \<Rightarrow> Inr (p, None, iter, RESIDUAL_CONVERGENCE))"
| "pcg_for body (iter # rest) loop_var vars =
     (case body iter vars of
        Inl e \<Rightarrow> Inl e
      | Inr (Return out) \<Rightarrow> Inr out
      | Inr (Continue vars') \<Rightarrow> pcg_for body rest (Some iter) vars')"

definition implimentation ::
  "(ndarray \<Rightarrow> real) \<Rightarrow> (ndarray \<Rightarrow> constraints \<Rightarrow> bool) \<Rightarrow>
   ndarray \<Rightarrow> matrix \<Rightarrow> ndarray \<Rightarrow> constraints \<Rightarrow> real \<Rightarrow>
   error + pcg_output" where
  "implimentation linalg_norm check g H R constraints delta =
     (let n = length g in
      if \<not> (shape_matrix n n H \<and> length R = n \<and> shape_constraints n constraints)
      then Inl TypeError
      else
        let p = zeros n;
            r = vneg g
        in case vdiv r R of
             Inl e \<Rightarrow> Inl e
           | Inr z \<Rightarrow>
               let direct = z;
                   inner1 = dot r z
               in pcg_for (pcg_iteration linalg_norm check H R constraints delta) [0..<n] None
                    (p, r, z, direct, inner1))"

section \<open>The PCG wrapper\<close>

record PCG_Status =
  status_x :: "ndarray option"
  status_fval :: "real option"
  status_iter :: nat
  status_flag :: PCG_Flag
  status_size :: "real option"

text \<open>\<open>PCG_Status.__init__\<close>\<close>

definition PCG_Status_init ::
  "ndarray option \<Rightarrow> real option \<Rightarrow> nat \<Rightarrow> PCG_Flag \<Rightarrow> PCG_Status" where
  "PCG_Status_init x fval iter flag =
     \<lparr>status_x = x, status_fval = fval, status_iter = iter, status_flag = flag,
      status_size = (case x of None \<Rightarrow> None | Some v \<Rightarrow> Some (sqrt (dot v v)))\<rparr>"

text \<open>
  The classes and functions the sources import but do not contain are parameters of the
  model, collected in one record: the feasibility predicate \<open>linneq.check\<close>, the boundary
  walk \<open>subspace_decay\<close>, the two preconditioners, the estimators \<open>make_gradient\<close> and
  \<open>make_hessian\<close>, and the caller's \<open>objective\<close> and \<open>gradient\<close>; with them the two library
  functions \<open>numpy.linalg.norm\<close> and \<open>@\<close>. They are pure and total here.

  Modelled from the spec: the class \<open>Gradient\<close> of \<open>optimizer._internals.trust_region.grad_maker\<close>,
  which is not among the sources, bundles the gradient vector \<open>value\<close> and its infinity norm
  \<open>infnorm\<close>. A \<open>GradientCheck\<close> is the tuple of the arguments it is built from.
\<close>

record Gradient =
  gvalue :: ndarray
  infnorm :: real

datatype Shaking = x_shape_0 | Fixed int

record Trust_Region_Options =
  border_abstol :: real
  tol_step :: real
  tol_grad :: real
  abstol_fval :: "real option"
  max_stall_iter :: "int option"
  init_delta :: real
  max_iter :: int
  check_rel :: real
  check_abs :: "real option"
  check_iter :: "int option"
  shaking :: Shaking
  display :: bool

text \<open>\<open>Trust_Region_Options.__init__\<close> with the defaults of the class.\<close>

definition Trust_Region_Options_init :: "int \<Rightarrow> Trust_Region_Options" where
  "Trust_Region_Options_init m =
     \<lparr>border_abstol = 1 / 10 ^ 10, tol_step = 1 / 10 ^ 10, tol_grad = 1 / 10 ^ 6,
      abstol_fval = None, max_stall_iter = None, init_delta = 1, max_iter = m,
      check_rel = 1 / 10 ^ 2, check_abs = None, check_iter = None,
      shaking = x_shape_0, display = True\<rparr>"

type_synonym GradientCheck = "(ndarray \<Rightarrow> ndarray) \<times> int \<times> bound \<times> real"

record externals =
  numpy_linalg_norm :: "ndarray \<Rightarrow> real"
  numpy_matmul :: "matrix \<Rightarrow> ndarray \<Rightarrow> ndarray"
  linneq_check :: "ndarray \<Rightarrow> constraints \<Rightarrow> bool"
  subspace_decay ::
    "ndarray \<Rightarrow> matrix \<Rightarrow> ndarray \<Rightarrow> ndarray \<Rightarrow> real \<Rightarrow> constraints \<Rightarrow> PCG_Flag \<Rightarrow>
     ndarray option \<times> PCG_Flag"
  hessian_precon :: "matrix \<Rightarrow> ndarray"
  gradient_precon :: "ndarray \<Rightarrow> ndarray"
  make_gradient ::
    "(ndarray \<Rightarrow> ndarray) \<Rightarrow> ndarray \<Rightarrow> constraints \<Rightarrow> Trust_Region_Options \<Rightarrow>
     GradientCheck \<Rightarrow> Gradient"
  make_hessian ::
    "(ndarray \<Rightarrow> ndarray) \<Rightarrow> ndarray \<Rightarrow> constraints \<Rightarrow> Trust_Region_Options \<Rightarrow> matrix"
  objective :: "ndarray \<Rightarrow> real"
  gradient :: "ndarray \<Rightarrow> ndarray"

text \<open>The quadratic model \<open>fval\<close> of \<open>pcg\<close>: \<open>g.T @ p + (0.5 * p).T @ H @ p\<close>.\<close>

definition model_fval :: "ndarray \<Rightarrow> matrix \<Rightarrow> ndarray \<Rightarrow> real" where
  "model_fval g H p = dot g p + dot (vecmat (smul (1 / 2) p) H) p"

text \<open>The comparison of \<open>best_policy\<close>: a lower model value, or the same value and a shorter step.\<close>

definition better :: "real \<Rightarrow> ndarray \<Rightarrow> real \<Rightarrow> ndarray \<Rightarrow> bool" where
  "better fa pa fb pb = (fa < fb \<or> (fa = fb \<and> norm2 pa < norm2 pb))"

definition best_policy ::
  "externals \<Rightarrow> ndarray \<Rightarrow> matrix \<Rightarrow> ndarray \<Rightarrow> constraints \<Rightarrow> real \<Rightarrow> error + PCG_Status" where
  "best_policy E g H R constraints delta =
     (case vdiv (vneg g) R of
        Inl e \<Rightarrow> Inl e
      | Inr d0 \<Rightarrow>
          let (p0, exit0) =
                subspace_decay E g H (zeros (length g)) d0 delta constraints POLICY_ONLY
          in (case implimentation (numpy_linalg_norm E) (linneq_check E) g H R constraints
                     delta of
                Inl e \<Rightarrow> Inl e
              | Inr (p1, direct, iter, exit1) \<Rightarrow>
                  let fval1 = model_fval g H p1;
                      after_follow_up =
                        (if exit1 = RESIDUAL_CONVERGENCE
                         then (case direct of
                                 None \<Rightarrow> Inr (p1, fval1, exit1)
                               | Some d \<Rightarrow> Inl (AssertionError Direct_is_None))
                         else (case direct of
                                 None \<Rightarrow> Inl (AssertionError Direct_is_not_None)
                               | Some d \<Rightarrow>
                                   let (p2, exit2) =
                                         subspace_decay E g H p1 d delta constraints exit1
                                   in (case p2 of
                                         None \<Rightarrow> Inr (p1, fval1, exit1)
                                       | Some q2 \<Rightarrow>
                                           let fval2 = model_fval g H q2
                                           in if better fval2 q2 fval1 p1
                                              then Inr (q2, fval2, exit2)
                                              else Inr (p1, fval1, exit1))))
                  in (case after_follow_up of
                        Inl e \<Rightarrow> Inl e
                      | Inr (p1', fval1', exit1') \<Rightarrow>
                          let final =
                                (if list_all (\<lambda>v. v = 0) p1'
                                 then PCG_Status_init None None iter exit1'
                                 else PCG_Status_init (Some p1') (Some fval1') iter exit1')
                          in (case p0 of
                                None \<Rightarrow> Inr final
                              | Some q0 \<Rightarrow>
                                  let fval0 = model_fval g H q0
                                  in if better fval0 q0 fval1' p1'
                                     then Inr (PCG_Status_init (Some q0) (Some fval0) 0 exit0)
                                     else Inr final))))"

definition pcg ::
  "externals \<Rightarrow> ndarray \<Rightarrow> matrix \<Rightarrow> constraints \<Rightarrow> real \<Rightarrow> error + PCG_Status" where
  "pcg E g H constraints delta =
     (let n = length g in
      if \<not> (shape_matrix n n H \<and> shape_constraints n constraints) then Inl TypeError
      else
        (case best_policy E g H (hessian_precon E H) constraints delta of
           Inl e \<Rightarrow> Inl e
         | Inr ret1 \<Rightarrow>
             (case best_policy E g H (gradient_precon E g) constraints delta of
                Inl e \<Rightarrow> Inl e
              | Inr ret2 \<Rightarrow>
                  (case (status_x ret1, status_x ret2) of
                     (None, None) \<Rightarrow> Inr ret1
                   | (None, Some x2) \<Rightarrow> Inr ret2
                   | (Some x1, None) \<Rightarrow> Inr ret1
                   | (Some x1, Some x2) \<Rightarrow>
                       (case (status_fval ret1, status_fval ret2) of
                          (Some f1, Some f2) \<Rightarrow>
                            if f1 < f2 \<or> (f1 = f2 \<and> norm2 x1 \<le> norm2 x2)
                            then Inr ret1 else Inr ret2
                        | _ \<Rightarrow> Inl (AssertionError Fval_is_not_None))))))"

section \<open>The trust-region driver\<close>

record Trust_Region_Result =
  result_x :: ndarray
  result_iter :: int
  result_delta :: real
  result_gradient :: Gradient
  success :: bool

text \<open>
  The local variables of \<open>trust_region\<close> that change in the main loop, with the two
  \<open>nonlocal\<close> variables of \<open>make_hess\<close>.
\<close>

record locals =
  cur_x :: ndarray
  cur_fval :: real
  cur_grad :: Gradient
  cur_H :: matrix
  constr_shifted :: constraints
  cur_delta :: real
  cur_iter :: int
  hessian_is_up_to_date :: bool
  times_after_hessian_shaking :: int
  old_fval :: real
  stall_iter :: int

text \<open>
  \<open>_constr_shifted = (A, b - A @ x, lb - x, ub - x)\<close> of \<open>get_info\<close>: the product is the
  library's (the parameter \<open>matmul\<close>), the three differences are elementwise float64
  subtractions.
\<close>

fun shift :: "(matrix \<Rightarrow> ndarray \<Rightarrow> ndarray) \<Rightarrow> constraints \<Rightarrow> ndarray \<Rightarrow> constraints" where
  "shift matmul (A, b, lb, ub) x =
     (A, map2 (\<lambda>bi ai. float64 (bi - ai)) b (matmul A x),
      map2 bound_minus lb x, map2 bound_minus ub x)"

definition get_info ::
  "externals \<Rightarrow> constraints \<Rightarrow> Trust_Region_Options \<Rightarrow>
   ndarray \<Rightarrow> int \<Rightarrow> bound \<Rightarrow> real \<Rightarrow> Gradient \<times> constraints" where
  "get_info E constraints opts x iter grad_infnorm init_grad_infnorm =
     (let new_grad =
            make_gradient E (gradient E) x constraints opts
              (\<lambda>y. [objective E y], iter, grad_infnorm, init_grad_infnorm)
      in (new_grad, shift (numpy_matmul E) constraints x))"

text \<open>
  \<open>make_hess\<close> returns the new Hessian, which every caller assigns to \<open>H\<close>; the model
  stores it at once. Its assertion is the only source of the error
  \<open>AssertionError Hessian_not_up_to_date\<close>.
\<close>

definition make_hess ::
  "externals \<Rightarrow> constraints \<Rightarrow> Trust_Region_Options \<Rightarrow> ndarray \<Rightarrow> locals \<Rightarrow> error + locals" where
  "make_hess E constraints opts x s =
     (if hessian_is_up_to_date s then Inl (AssertionError Hessian_not_up_to_date)
      else Inr (s\<lparr>cur_H := make_hessian E (gradient E) x constraints opts,
                  hessian_is_up_to_date := True,
                  times_after_hessian_shaking := 0\<rparr>))"

definition make_result :: "locals \<Rightarrow> bool \<Rightarrow> Trust_Region_Result" where
  "make_result s ok =
     \<lparr>result_x = cur_x s, result_iter = cur_iter s, result_delta = cur_delta s,
      result_gradient = cur_grad s, success = ok\<rparr>"

text \<open>The deferred refresh at the head of an iteration.\<close>

definition deferred_refresh ::
  "externals \<Rightarrow> constraints \<Rightarrow> Trust_Region_Options \<Rightarrow> int \<Rightarrow> locals \<Rightarrow> error + locals" where
  "deferred_refresh E constraints opts hessian_shaking s =
     (if times_after_hessian_shaking s \<ge> hessian_shaking \<and> \<not> hessian_is_up_to_date s
      then make_hess E constraints opts (cur_x s) s
      else Inr s)"

text \<open>The branch \<open>if pcg_status.x is None\<close>, up to its \<open>continue\<close>.\<close>

definition no_step ::
  "externals \<Rightarrow> constraints \<Rightarrow> Trust_Region_Options \<Rightarrow> locals \<Rightarrow> error + locals" where
  "no_step E constraints opts s =
     (if hessian_is_up_to_date s then Inr (s\<lparr>cur_delta := cur_delta s / 4\<rparr>)
      else make_hess E constraints opts (cur_x s) s)"

text \<open>
  The ratio of the actual to the predicted reduction. The division is Python's, which raises
  on a zero divisor.
\<close>

definition ratio :: "real \<Rightarrow> real \<Rightarrow> error + real" where
  "ratio reduce pcg_fval =
     (if reduce \<ge> 0 then Inr 0
      else if reduce \<le> pcg_fval then Inr 1
      else if pcg_fval = 0 then Inl ZeroDivisionError
      else Inr (reduce / pcg_fval))"

definition radius_update ::
  "externals \<Rightarrow> constraints \<Rightarrow> Trust_Region_Options \<Rightarrow> real \<Rightarrow> real \<Rightarrow> locals \<Rightarrow>
   error + locals" where
  "radius_update E constraints opts rat pcg_size s =
     (if rat \<ge> 75 / 100 \<and> pcg_size \<ge> 9 / 10 * cur_delta s
      then Inr (s\<lparr>cur_delta := cur_delta s * 2\<rparr>)
      else if rat \<le> 25 / 100
      then (if hessian_is_up_to_date s then Inr (s\<lparr>cur_delta := pcg_size / 4\<rparr>)
            else make_hess E constraints opts (cur_x s) s)
      else Inr s)"

text \<open>The update of the iterate when the candidate lowers the objective.\<close>

definition accept ::
  "externals \<Rightarrow> constraints \<Rightarrow> Trust_Region_Options \<Rightarrow> real \<Rightarrow> ndarray \<Rightarrow> real \<Rightarrow> locals \<Rightarrow>
   locals" where
  "accept E constraints opts init_grad_infnorm new_x new_fval s =
     (if new_fval < cur_fval s
      then
        let s1 = s\<lparr>cur_x := new_x, cur_fval := new_fval, hessian_is_up_to_date := False\<rparr>;
            (grad', shifted') =
              get_info E constraints opts (cur_x s1) (cur_iter s1)
                (Fin (infnorm (cur_grad s1))) init_grad_infnorm;
            s2 = s1\<lparr>cur_grad := grad', constr_shifted := shifted'\<rparr>
        in (case abstol_fval opts of
              None \<Rightarrow> s2\<lparr>old_fval := cur_fval s2, stall_iter := 0\<rparr>
            | Some tol \<Rightarrow>
                if old_fval s2 - cur_fval s2 < tol
                then s2\<lparr>stall_iter := stall_iter s2 + 1\<rparr>
                else s2\<lparr>old_fval := cur_fval s2, stall_iter := 0\<rparr>)
      else s)"

text \<open>
  The two success checks. A \<open>Return\<close> carries the result together with the local variables
  at the instant of the return, so that properties of that instant can be stated.
\<close>

definition convergence_check ::
  "externals \<Rightarrow> constraints \<Rightarrow> Trust_Region_Options \<Rightarrow> PCG_Flag \<Rightarrow> real \<Rightarrow> locals \<Rightarrow>
   error + (Trust_Region_Result \<times> locals, locals) flow" where
  "convergence_check E constraints opts flag pcg_size s =
     (if flag = RESIDUAL_CONVERGENCE
      then
        (if hessian_is_up_to_date s
         then
           (if infnorm (cur_grad s) < tol_grad opts then Inr (Return (make_result s True, s))
            else if pcg_size < tol_step opts then Inr (Return (make_result s True, s))
            else Inr (Continue s))
         else (case make_hess E constraints opts (cur_x s) s of
                 Inl e \<Rightarrow> Inl e
               | Inr s' \<Rightarrow> Inr (Continue s')))
      else Inr (Continue s))"

definition stall_check ::
  "externals \<Rightarrow> constraints \<Rightarrow> Trust_Region_Options \<Rightarrow> locals \<Rightarrow>
   error + (Trust_Region_Result \<times> locals, locals) flow" where
  "stall_check E constraints opts s =
     (case max_stall_iter opts of
        None \<Rightarrow> Inr (Continue s)
      | Some m \<Rightarrow>
          if stall_iter s \<ge> m
          then
            (if hessian_is_up_to_date s then Inr (Return (make_result s True, s))
             else (case make_hess E constraints opts (cur_x s) s of
                     Inl e \<Rightarrow> Inl e
                   | Inr s' \<Rightarrow> Inr (Continue s')))
          else Inr (Continue s))"

text \<open>
  The rest of a pass once the ratio is known: the radius update, the acceptance and the two
  success checks.
\<close>

definition candidate ::
  "externals \<Rightarrow> constraints \<Rightarrow> Trust_Region_Options \<Rightarrow> real \<Rightarrow> PCG_Flag \<Rightarrow> real \<Rightarrow>
   ndarray \<Rightarrow> real \<Rightarrow> real \<Rightarrow> locals \<Rightarrow>
   error + (Trust_Region_Result \<times> locals, locals) flow" where
  "candidate E constraints opts init_grad_infnorm flag pcg_size new_x new_fval rat s2 =
     (case radius_update E constraints opts rat pcg_size s2 of
        Inl e \<Rightarrow> Inl e
      | Inr s3 \<Rightarrow>
          let s4 = accept E constraints opts init_grad_infnorm new_x new_fval s3
          in (case convergence_check E constraints opts flag pcg_size s4 of
                Inl e \<Rightarrow> Inl e
              | Inr (Return res) \<Rightarrow> Inr (Return res)
              | Inr (Continue s5) \<Rightarrow> stall_check E constraints opts s5))"

text \<open>One pass through the body of \<open>while True\<close>, after the two failure checks.\<close>

definition iteration ::
  "externals \<Rightarrow> constraints \<Rightarrow> Trust_Region_Options \<Rightarrow> int \<Rightarrow> real \<Rightarrow> locals \<Rightarrow>
   error + (Trust_Region_Result \<times> locals, locals) flow" where
  "iteration E constraints opts hessian_shaking init_grad_infnorm s =
     (case deferred_refresh E constraints opts hessian_shaking s of
        Inl e \<Rightarrow> Inl e
      | Inr s1 \<Rightarrow>
          (case pcg E (gvalue (cur_grad s1)) (cur_H s1) (constr_shifted s1) (cur_delta s1) of
             Inl e \<Rightarrow> Inl e
           | Inr pcg_status \<Rightarrow>
               let s2 = s1\<lparr>cur_iter := cur_iter s1 + 1,
                           times_after_hessian_shaking := times_after_hessian_shaking s1 + 1\<rparr>
               in (case status_x pcg_status of
                     None \<Rightarrow>
                       (case no_step E constraints opts s2 of
                          Inl e \<Rightarrow> Inl e
                        | Inr s3 \<Rightarrow> Inr (Continue s3))
                   | Some step \<Rightarrow>
                       (case status_fval pcg_status of
                          None \<Rightarrow> Inl (AssertionError Fval_is_not_None)
                        | Some pcg_fval \<Rightarrow>
                            (case status_size pcg_status of
                               None \<Rightarrow> Inl (AssertionError Size_is_not_None)
                             | Some pcg_size \<Rightarrow>
                                 let new_x = vadd (cur_x s2) step;
                                     new_fval = objective E new_x;
                                     reduce = new_fval - cur_fval s2
                                 in (case ratio reduce pcg_fval of
                                       Inl e \<Rightarrow> Inl e
                                     | Inr rat \<Rightarrow>
                                         candidate E constraints opts init_grad_infnorm
                                           (status_flag pcg_status) pcg_size new_x new_fval
                                           rat s2))))))"

text \<open>
  The main loop. Every pass that does not return adds one to \<open>iter\<close>, and the loop returns
  once \<open>iter\<close> exceeds \<open>max_iter\<close>, so it terminates.
\<close>

function main_loop ::
  "externals \<Rightarrow> constraints \<Rightarrow> Trust_Region_Options \<Rightarrow> int \<Rightarrow> real \<Rightarrow> locals \<Rightarrow>
   error + Trust_Region_Result \<times> locals" where
  "main_loop E constraints opts hessian_shaking init_grad_infnorm s =
     (if cur_delta s < tol_step opts then Inr (make_result s False, s)
      else if cur_iter s > max_iter opts then Inr (make_result s False, s)
      else
        (case iteration E constraints opts hessian_shaking init_grad_infnorm s of
           Inl e \<Rightarrow> Inl e
         | Inr (Return res) \<Rightarrow> Inr res
         | Inr (Continue s') \<Rightarrow>
             main_loop E constraints opts hessian_shaking init_grad_infnorm s'))"
  by pat_completeness auto

termination main_loop
proof (relation "measure (\<lambda>(E, constraints, opts, hessian_shaking, init_grad_infnorm, s).
                            nat (max_iter opts + 1 - cur_iter s))")
  show "wf (measure (\<lambda>(E, constraints, opts, hessian_shaking, init_grad_infnorm, s).
                        nat (max_iter opts + 1 - cur_iter s)))"
    by simp
next
  fix E :: externals and constraints :: constraints and opts :: Trust_Region_Options
    and hessian_shaking :: int and init_grad_infnorm :: real and s s' :: locals
    and fl :: "(Trust_Region_Result \<times> locals, locals) flow"
  assume top: "\<not> cur_delta s < tol_step opts" "\<not> max_iter opts < cur_iter s"
    and it: "iteration E constraints opts hessian_shaking init_grad_infnorm s = Inr fl"
    and fl: "fl = Continue s'"
  have hess: "cur_iter t' = cur_iter t"
    if "make_hess E constraints opts y t = Inr t'" for y t t'
    using that by (auto simp: make_hess_def split: if_splits)
  have refresh: "cur_iter t' = cur_iter t"
    if "deferred_refresh E constraints opts hessian_shaking t = Inr t'" for t t'
    using that hess by (auto simp: deferred_refresh_def split: if_splits)
  have nostep: "cur_iter t' = cur_iter t"
    if "no_step E constraints opts t = Inr t'" for t t'
    using that hess by (auto simp: no_step_def split: if_splits)
  have radius: "cur_iter t' = cur_iter t"
    if "radius_update E constraints opts rat sz t = Inr t'" for rat sz t t'
    using that hess by (auto simp: radius_update_def split: if_splits)
  have acc: "cur_iter (accept E constraints opts init_grad_infnorm nx nf t) = cur_iter t"
    for nx nf t
    by (simp add: accept_def Let_def split: prod.splits option.splits)
  have conv: "cur_iter t' = cur_iter t"
    if "convergence_check E constraints opts flag sz t = Inr (Continue t')" for flag sz t t'
    using that hess by (auto simp: convergence_check_def split: if_splits sum.splits)
  have stall: "cur_iter t' = cur_iter t"
    if "stall_check E constraints opts t = Inr (Continue t')" for t t'
    using that hess by (auto simp: stall_check_def split: if_splits sum.splits option.splits)
  have "cur_iter s' = cur_iter s + 1"
    using it fl
    by (auto simp: iteration_def candidate_def Let_def acc
             split: sum.splits option.splits flow.splits
             dest!: refresh nostep radius conv stall)
  with top show "((E, constraints, opts, hessian_shaking, init_grad_infnorm, s'),
                  (E, constraints, opts, hessian_shaking, init_grad_infnorm, s))
                 \<in> measure (\<lambda>(E, constraints, opts, hessian_shaking, init_grad_infnorm, s).
                              nat (max_iter opts + 1 - cur_iter s))"
    by simp
qed

text \<open>\<open>hessian_shaking\<close>: the option \<open>shaking\<close>, resolved once.\<close>

definition resolve_shaking :: "Trust_Region_Options \<Rightarrow> ndarray \<Rightarrow> int" where
  "resolve_shaking opts x = (case shaking opts of x_shape_0 \<Rightarrow> int (length x) | Fixed k \<Rightarrow> k)"

text \<open>
  The statements of \<open>trust_region\<close> before the loop. \<open>H\<close> is not bound until \<open>make_hess\<close>
  returns; the record holds the empty matrix until then.
\<close>

definition initialize ::
  "externals \<Rightarrow> ndarray \<Rightarrow> constraints \<Rightarrow> Trust_Region_Options \<Rightarrow> error + locals" where
  "initialize E x constraints opts =
     (if \<not> linneq_check E x constraints then Inl (AssertionError Start_feasible)
      else
        let fval = objective E x;
            (grad, shifted) = get_info E constraints opts x 0 PInf 0
        in make_hess E constraints opts x
             \<lparr>cur_x = x, cur_fval = fval, cur_grad = grad, cur_H = [],
              constr_shifted = shifted, cur_delta = init_delta opts, cur_iter = 0,
              hessian_is_up_to_date = False, times_after_hessian_shaking = 0,
              old_fval = fval, stall_iter = 0\<rparr>)"

text \<open>
  \<open>trust_region_run\<close> is \<open>trust_region\<close> returning, beside its result, the local variables
  at the instant of the return; \<open>trust_region\<close> drops them.
\<close>

definition trust_region_run ::
  "externals \<Rightarrow> ndarray \<Rightarrow> constraints \<Rightarrow> Trust_Region_Options \<Rightarrow>
   error + Trust_Region_Result \<times> locals" where
  "trust_region_run E x constraints opts =
     (if \<not> shape_constraints (length x) constraints then Inl TypeError
      else
        (case initialize E x constraints opts of
           Inl e \<Rightarrow> Inl e
         | Inr s \<Rightarrow>
             main_loop E constraints opts (resolve_shaking opts x) (infnorm (cur_grad s)) s))"

definition trust_region ::
  "externals \<Rightarrow> ndarray \<Rightarrow> constraints \<Rightarrow> Trust_Region_Options \<Rightarrow>
   error + Trust_Region_Result" where
  "trust_region E x constraints opts =
     (case trust_region_run E x constraints opts of
        Inl e \<Rightarrow> Inl e
      | Inr (res, s) \<Rightarrow> Inr res)"


section \<open>Feasibility\<close>

text \<open>
  Modelled from the spec: feasibility of a point in a constraint bundle, \<open>A x \<le> b\<close> and
  \<open>lb \<le> x \<le> ub\<close> elementwise. The code of \<open>linneq.check\<close> is not among the sources.
\<close>

fun feasible :: "ndarray \<Rightarrow> constraints \<Rightarrow> bool" where
  "feasible x (A, b, lb, ub) =
     (list_all2 (\<le>) (matvec A x) b \<and> list_all2 bound_le_real lb x \<and>
      list_all2 real_le_bound x ub)"

section \<open>Example inputs\<close>

text \<open>
  A one-dimensional problem without linear constraints and without bounds. The externals
  are constants: the objective is flat, the estimators report the gradient \<open>g\<close> and the
  Hessian \<open>h\<close>, the preconditioners are the identity, the boundary walk finds nothing,
  \<open>linneq.check\<close> is \<open>feasible\<close>, and the library functions are the float64 instances.
  \<open>slope_externals k\<close> differs in the objective, which is \<open>k\<close> times the sum of the
  coordinates, and reports the gradient \<open>[1]\<close>.
\<close>

definition unbounded1 :: constraints where
  "unbounded1 = ([], [], [MInf], [PInf])"

definition unbounded2 :: constraints where
  "unbounded2 = ([], [], [MInf, MInf], [PInf, PInf])"

text \<open>The float64 number \<open>2\<^sup>-\<^sup>2\<^sup>7\<close>, whose square is lost when it is added to 1.\<close>

definition tiny :: real where
  "tiny = 1 / 2 ^ 27"

definition flat_externals :: "real \<Rightarrow> real \<Rightarrow> externals" where
  "flat_externals g h =
     \<lparr>numpy_linalg_norm = float64_norm,
      numpy_matmul = float64_matvec,
      linneq_check = feasible,
      subspace_decay = (\<lambda>g H origin direction delta c flag. (None, flag)),
      hessian_precon = (\<lambda>H. [1]),
      gradient_precon = (\<lambda>g. [1]),
      make_gradient = (\<lambda>grad x c opts chk. \<lparr>gvalue = [g], infnorm = \<bar>g\<bar>\<rparr>),
      make_hessian = (\<lambda>grad x c opts. [[h]]),
      objective = (\<lambda>x. 0),
      gradient = (\<lambda>x. [g])\<rparr>"


text \<open>
  Two variables with one linear constraint \<open>x\<^sub>1 + x\<^sub>2 \<le> 3\<close>, the first variable between 0 and
  2, the second unbounded.
\<close>

definition box2 :: constraints where
  "box2 = ([[1, 1]], [3], [Fin 0, MInf], [Fin 2, PInf])"

text \<open>
  The float64 numbers nearest to 0.1 and 0.2, and one variable with the upper bound 0.1.
\<close>

definition tenth :: real where
  "tenth = 3602879701896397 / 2 ^ 55"

definition fifth :: real where
  "fifth = 3602879701896397 / 2 ^ 54"

definition capped1 :: constraints where
  "capped1 = ([], [], [MInf], [Fin tenth])"

text \<open>Local variables in the middle of a run: the Hessian is stale, one pass after its refresh.\<close>

definition stale_locals :: locals where
  "stale_locals =
     \<lparr>cur_x = [0], cur_fval = 0, cur_grad = \<lparr>gvalue = [0], infnorm = 0\<rparr>, cur_H = [[1]],
      constr_shifted = unbounded1, cur_delta = 1, cur_iter = 3,
      hessian_is_up_to_date = False, times_after_hessian_shaking = 1,
      old_fval = 0, stall_iter = 0\<rparr>"

text \<open>
  The local variables when the loop is entered from \<open>x = [0]\<close> with the externals
  \<open>flat_externals g 1\<close> and the initial radius 1, and after one pass that took no step and
  shrank the radius.
\<close>

definition entry_locals :: "real \<Rightarrow> locals" where
  "entry_locals g =
     \<lparr>cur_x = [0], cur_fval = 0, cur_grad = \<lparr>gvalue = [g], infnorm = \<bar>g\<bar>\<rparr>, cur_H = [[1]],
      constr_shifted = unbounded1, cur_delta = 1, cur_iter = 0,
      hessian_is_up_to_date = True, times_after_hessian_shaking = 0,
      old_fval = 0, stall_iter = 0\<rparr>"

definition shrunk_locals :: "real \<Rightarrow> locals" where
  "shrunk_locals g =
     (entry_locals g)\<lparr>cur_delta := 1 / 4, cur_iter := 1, times_after_hessian_shaking := 1\<rparr>"

text \<open>The default options with the gradient tolerance raised to 10.\<close>

definition loose_options :: Trust_Region_Options where
  "loose_options = (Trust_Region_Options_init 10)\<lparr>tol_grad := 10\<rparr>"

section \<open>Rounding on concrete numbers\<close>

lemma float64_zero: "float64 0 = 0"
  by (simp add: float64_def)

text \<open>Inside a normal binade the rounding is to a multiple of the unit in the last place.\<close>

lemma float64_binade:
  assumes "2 powi k \<le> \<bar>x\<bar>" and "\<bar>x\<bar> < 2 powi (k + 1)" and "- 1022 \<le> k"
  shows "float64 x = of_int (rne (x / 2 powi (k - 52))) * 2 powi (k - 52)"
proof -
  have "(0::real) < 2 powi k"
    by simp
  with assms(1) have pos: "0 < \<bar>x\<bar>"
    by linarith
  have p: "(2::real) powr real_of_int j = 2 powi j" for j
    by (simp add: powr_real_of_int')
  have "2 powr real_of_int k \<le> \<bar>x\<bar>" "\<bar>x\<bar> < 2 powr (real_of_int k + 1)"
    using assms(1,2) p[of k] p[of "k + 1"] by simp_all
  with pos have "\<lfloor>log 2 \<bar>x\<bar>\<rfloor> = k"
    by (simp add: floor_log_eq_powr_iff)
  with pos assms(3) show ?thesis
    by (auto simp: float64_def Let_def max_def)
qed

lemma float64_one: "float64 1 = 1"
  using float64_binade[of 0 1] by (simp add: rne_def power_int_minus)

lemma float64_minus_one: "float64 (- 1) = - 1"
  using float64_binade[of 0 "- 1"] by (simp add: rne_def power_int_minus)

lemma float64_two: "float64 2 = 2"
  using float64_binade[of 1 2] by (simp add: rne_def power_int_minus)

text \<open>\<open>2\<^sup>-\<^sup>5\<^sup>4\<close> is a float64, and added to 1 it is rounded away.\<close>

lemma float64_tiny: "float64 (1 / 2 ^ 54) = 1 / 2 ^ 54"
  using float64_binade[of "- 54" "1 / 2 ^ 54"] by (simp add: rne_def power_int_minus)

lemma float64_one_plus_tiny: "float64 (1 + 1 / 2 ^ 54) = 1"
  using float64_binade[of 0 "1 + 1 / 2 ^ 54"] by (simp add: rne_def power_int_minus)

text \<open>0.1, 0.2 and their float64 sum, which is a tie rounded up to the even significand.\<close>

lemma float64_tenth: "float64 tenth = tenth"
  unfolding tenth_def
  using float64_binade[of "- 4" "3602879701896397 / 2 ^ 55"]
  by (simp add: rne_def power_int_minus)

lemma float64_fifth: "float64 fifth = fifth"
  unfolding fifth_def
  using float64_binade[of "- 3" "3602879701896397 / 2 ^ 54"]
  by (simp add: rne_def power_int_minus)

lemma float64_tenth_plus_fifth: "float64 (tenth + fifth) = 5404319552844596 / 2 ^ 54"
proof -
  have e: "tenth + fifth = 10808639105689191 / 2 ^ 55"
    by (simp add: tenth_def fifth_def)
  have "float64 (10808639105689191 / 2 ^ 55) = 5404319552844596 / 2 ^ 54"
    using float64_binade[of "- 2" "10808639105689191 / 2 ^ 55"]
    by (simp add: rne_def power_int_minus)
  then show ?thesis by (simp only: e)
qed

lemma float64_dot_zeros: "float64_dot (zeros n) (zeros n) = 0"
proof -
  have "foldl (\<lambda>s (a, b). float64 (s + float64 (a * b))) 0
          (zip (replicate n (0::real)) (replicate n (0::real))) = 0"
    by (induction n) (simp_all add: float64_zero)
  then show ?thesis by (simp add: float64_dot_def zeros_def)
qed

lemma float64_norm_zeros: "float64_norm (zeros n) = 0"
  by (simp add: float64_norm_def float64_dot_zeros float64_zero)

lemma float64_norm_zero1: "float64_norm [0] = 0"
  using float64_norm_zeros[of 1] by (simp add: zeros_def)

lemma float64_norm_minus_one: "float64_norm [- 1] = 1"
  by (simp add: float64_norm_def float64_dot_def float64_one)

text \<open>The vector \<open>(1, 2\<^sup>-\<^sup>2\<^sup>7)\<close>: its computed norm is 1, its Euclidean norm is larger.\<close>

lemma tiny_square: "tiny * tiny = 1 / 2 ^ 54"
  by (simp add: tiny_def)

lemma tiny_pos: "0 < tiny"
  by (simp add: tiny_def)

lemma float64_norm_long: "float64_norm [1, tiny] = 1"
proof -
  have two: "float64_dot [a, b] [c, d] = float64 (float64 (0 + float64 (a * c)) + float64 (b * d))"
    for a b c d
    by (simp add: float64_dot_def)
  have p: "(1::real) * 1 = 1" by simp
  have "float64_dot [1, tiny] [1, tiny] = 1"
    by (simp only: two p tiny_square float64_one float64_tiny float64_one_plus_tiny add_0)
  then show ?thesis by (simp add: float64_norm_def float64_one)
qed

lemma euclidean_norm_long: "\<not> euclidean_norm [1, tiny] \<le> 1"
proof -
  have "dot [1, tiny] [1, tiny] = 1 + tiny * tiny"
    by (simp add: dot_def)
  then have "dot [1, tiny] [1, tiny] > 1"
    by (simp add: tiny_square)
  then have "sqrt (dot [1, tiny] [1, tiny]) > 1"
    by simp
  then show ?thesis by (simp add: euclidean_norm_def)
qed

section \<open>Properties of the PCG inner solver\<close>

lemma sqrt_eps: "sqrt eps = 1 / 2 ^ 26"
  unfolding eps_def by (simp add: real_sqrt_divide real_sqrt_unique)

lemmas array_defs =
  dot_def matvec_def vecmat_def vadd_def vsub_def smul_def vneg_def zeros_def vdiv_def
  norm2_def shape_matrix_def

lemma dot_zeros: "dot (zeros n) (zeros n) = 0"
  by (induction n) (simp_all add: dot_def zeros_def)

lemma norm2_zeros: "norm2 (zeros n) = 0"
  by (simp add: norm2_def dot_zeros)

lemma vneg_zeros: "vneg (zeros n) = zeros n"
  by (simp add: vneg_def zeros_def)

lemma map2_divide_zeros: "length R = n \<Longrightarrow> map2 (/) (zeros n) R = zeros n"
  by (induction R arbitrary: n) (auto simp: zeros_def)

lemma max_abs_zeros: "0 < n \<Longrightarrow> max_abs (zeros n) = Inr 0"
proof -
  have f: "fold (\<lambda>b m. max m \<bar>b\<bar>) (replicate k 0) (0::real) = 0" for k
    by (induction k) simp_all
  assume "0 < n"
  then obtain k where "n = Suc k" by (cases n) auto
  then show ?thesis by (simp add: zeros_def f del: fold_replicate)
qed

text \<open>An exit from a pass returns the \<open>p\<close> the pass started with, and the index of the pass.\<close>

lemma pcg_iteration_Return:
  assumes "pcg_iteration nrm chk H R c delta iter (p, r, z, d, i1) = Inr (Return (p', d', it, fl))"
  shows "p' = p \<and> it = iter"
  using assms by (auto simp: Let_def split: sum.splits if_splits)

text \<open>A pass that goes on has replaced \<open>p\<close> by a trial point that passed both tests.\<close>

lemma pcg_iteration_Continue:
  assumes "pcg_iteration nrm chk H R c delta iter (p, r, z, d, i1) =
           Inr (Continue (p', r', z', d', i1'))"
  shows "nrm p' \<le> delta \<and> chk p' c"
  using assms by (auto simp: Let_def split: sum.splits if_splits)

text \<open>
  Hence every property \<open>Q\<close> that holds of the initial \<open>p\<close> and of every point inside the
  radius that the constraints accept holds of the returned step.
\<close>

lemma pcg_for_invariant:
  assumes "pcg_for (pcg_iteration nrm chk H R c delta) is lv vars = Inr (p', d', it, fl)"
    and "Q (fst vars)"
    and "\<And>q. nrm q \<le> delta \<Longrightarrow> chk q c \<Longrightarrow> Q q"
  shows "Q p'"
  using assms
proof (induction "is" arbitrary: lv vars)
  case Nil
  then show ?case by (cases vars) (auto split: option.splits)
next
  case (Cons i "is")
  obtain p r z d i1 where vars: "vars = (p, r, z, d, i1)" by (cases vars)
  show ?case
  proof (cases "pcg_iteration nrm chk H R c delta i vars")
    case (Inl e)
    with Cons.prems show ?thesis by simp
  next
    case (Inr step)
    show ?thesis
    proof (cases step)
      case (Return out)
      with Inr Cons.prems(1)
      have "pcg_iteration nrm chk H R c delta i (p, r, z, d, i1) = Inr (Return (p', d', it, fl))"
        by (simp add: vars)
      from pcg_iteration_Return[OF this] Cons.prems(2) show ?thesis by (simp add: vars)
    next
      case (Continue vars')
      obtain p2 r2 z2 d2 i2 where v': "vars' = (p2, r2, z2, d2, i2)" by (cases vars')
      from Inr Continue
      have "pcg_iteration nrm chk H R c delta i (p, r, z, d, i1) =
            Inr (Continue (p2, r2, z2, d2, i2))"
        by (simp add: vars v')
      from pcg_iteration_Continue[OF this] have "Q (fst vars')"
        using Cons.prems(3) by (simp add: v')
      moreover from Inr Continue Cons.prems(1)
      have "pcg_for (pcg_iteration nrm chk H R c delta) is (Some i) vars' = Inr (p', d', it, fl)"
        by simp
      ultimately show ?thesis using Cons.IH Cons.prems(3) by blast
    qed
  qed
qed

lemma implimentation_loop:
  assumes "implimentation nrm chk g H R c delta = Inr out"
  obtains z where
    "pcg_for (pcg_iteration nrm chk H R c delta) [0..<length g] None
       (zeros (length g), vneg g, z, z, dot (vneg g) z) = Inr out"
  using assms by (auto simp: implimentation_def Let_def split: if_splits sum.splits)

text \<open>Two runs on a one-dimensional problem: a full run of one pass, and the zero gradient.\<close>

lemma implimentation_one:
  "implimentation float64_norm feasible [1] [[1]] [1] unbounded1 1 =
   Inr ([-1], None, 0, RESIDUAL_CONVERGENCE)"
  by (simp add: implimentation_def unbounded1_def array_defs sqrt_eps float64_norm_minus_one)

lemma implimentation_zero:
  "implimentation float64_norm feasible [0] [[1]] [1] unbounded1 delta =
   Inr ([0], None, 0, RESIDUAL_CONVERGENCE)"
  by (simp add: implimentation_def unbounded1_def array_defs sqrt_eps)

text \<open>
  A run in two variables, with the gradient \<open>(-1, -2\<^sup>-\<^sup>2\<^sup>7)\<close>, the identity for \<open>H\<close> and the
  radius 1: the first pass accepts the trial point \<open>(1, 2\<^sup>-\<^sup>2\<^sup>7)\<close>, whose computed norm is 1,
  and the second pass finds the residual zero.
\<close>

lemma implimentation_long:
  "implimentation float64_norm feasible [- 1, - tiny] [[1, 0], [0, 1]] [1, 1] unbounded2 1 =
   Inr ([1, tiny], None, 1, RESIDUAL_CONVERGENCE)"
proof -
  have n: "1 + tiny * tiny \<noteq> 0" "0 < 1 + tiny * tiny"
    by (simp_all add: tiny_square)
  have u: "[0..<length [- 1, - tiny]] = [0, 1]"
    by (simp add: upt_rec)
  have pass0:
    "pcg_iteration float64_norm feasible [[1, 0], [0, 1]] [1, 1] unbounded2 1 0
       ([0, 0], [1, tiny], [1, tiny], [1, tiny], 1 + tiny * tiny) =
     Inr (Continue ([1, tiny], [0, 0], [0, 0], [0, 0], 0))"
    using n
    by (simp add: unbounded2_def array_defs sqrt_eps float64_norm_long Let_def)
  have pass1:
    "pcg_iteration float64_norm feasible [[1, 0], [0, 1]] [1, 1] unbounded2 1 1
       ([1, tiny], [0, 0], [0, 0], [0, 0], 0) =
     Inr (Return ([1, tiny], None, 1, RESIDUAL_CONVERGENCE))"
    by (simp add: sqrt_eps)
  have loop:
    "pcg_for (pcg_iteration float64_norm feasible [[1, 0], [0, 1]] [1, 1] unbounded2 1)
       [0, 1] None ([0, 0], [1, tiny], [1, tiny], [1, tiny], 1 + tiny * tiny) =
     Inr ([1, tiny], None, 1, RESIDUAL_CONVERGENCE)"
    by (simp only: pcg_for.simps pass0 pass1 sum.case flow.case)
  have sh: "shape_matrix (length [- 1, - tiny]) (length [- 1, - tiny]) [[1, 0], [0, 1]]"
    "length [1, 1 :: real] = length [- 1, - tiny]"
    "shape_constraints (length [- 1, - tiny]) unbounded2"
    by (simp_all add: unbounded2_def shape_matrix_def)
  have z: "zeros (length [- 1, - tiny]) = [0, 0]"
    by (simp add: zeros_def numeral_2_eq_2)
  have v: "vneg [- 1, - tiny] = [1, tiny]"
    by (simp add: vneg_def)
  have d: "vdiv [1, tiny] [1, 1] = Inr [1, tiny]"
    by (simp add: vdiv_def)
  have i: "dot [1, tiny] [1, tiny] = 1 + tiny * tiny"
    by (simp add: dot_def)
  show ?thesis
    unfolding implimentation_def Let_def
    by (simp only: sh z v d i u loop sum.case simp_thms if_False)
qed

text \<open>
  Claim C1, as the code has it. For a radius \<open>delta > 0\<close>, whatever the other inputs and
  whichever flag is returned, the step \<open>p\<close> returned by the PCG inner solver passes the
  solver's own trust-region test: the norm that \<open>numpy.linalg.norm\<close> computes for \<open>p\<close>
  is at most \<open>delta\<close>. This holds for whatever function the library computes, provided it
  gives 0 on the zero vector.
\<close>

theorem implimentation_within_radius:
  assumes "0 < delta" and "nrm (zeros (length g)) = 0"
    and "implimentation nrm chk g H R c delta = Inr (p, direct, iter, flag)"
  shows "nrm p \<le> delta"
proof -
  from assms(3) obtain z where
    run: "pcg_for (pcg_iteration nrm chk H R c delta) [0..<length g] None
            (zeros (length g), vneg g, z, z, dot (vneg g) z) = Inr (p, direct, iter, flag)"
    by (rule implimentation_loop)
  show ?thesis
    by (rule pcg_for_invariant[OF run, where Q="\<lambda>q. nrm q \<le> delta"])
       (use assms(1,2) in simp_all)
qed

theorem implimentation_within_radius_witness:
  "(0::real) < 1 \<and>
   float64_norm (zeros (length [- 1, - tiny])) = 0 \<and>
   implimentation float64_norm feasible [- 1, - tiny] [[1, 0], [0, 1]] [1, 1] unbounded2 1 =
     Inr ([1, tiny], None, 1, RESIDUAL_CONVERGENCE) \<and>
   float64_norm [1, tiny] \<le> 1"
proof -
  have z: "float64_norm (zeros (length [- 1, - tiny])) = 0"
    by (rule float64_norm_zeros)
  have "float64_norm [1, tiny] \<le> 1"
    by (rule implimentation_within_radius[OF _ z implimentation_long]) simp
  moreover have "(0::real) < 1" by simp
  ultimately show ?thesis using z implimentation_long by blast
qed

text \<open>
  Claim C1 as stated fails: the Euclidean norm of the returned step can exceed \<open>delta\<close>.
  In the run above the radius is 1 and the returned step is \<open>(1, 2\<^sup>-\<^sup>2\<^sup>7)\<close>, of squared length
  \<open>1 + 2\<^sup>-\<^sup>5\<^sup>4\<close>; the test let it pass because the sum of the squares rounds to 1.
\<close>

theorem implimentation_radius_counterexample:
  "(0::real) < 1 \<and>
   implimentation float64_norm feasible [- 1, - tiny] [[1, 0], [0, 1]] [1, 1] unbounded2 1 =
     Inr ([1, tiny], None, 1, RESIDUAL_CONVERGENCE) \<and>
   float64_norm [1, tiny] = 1 \<and>
   \<not> euclidean_norm [1, tiny] \<le> 1"
proof -
  have "(0::real) < 1" by simp
  with implimentation_long float64_norm_long euclidean_norm_long show ?thesis by blast
qed

text \<open>
  Claim C2. If the shifted constraints accept the zero vector, then, whichever flag is
  returned, they accept the step \<open>p\<close> returned by the PCG inner solver.
\<close>

theorem implimentation_feasible:
  assumes "chk (zeros (length g)) c"
    and "implimentation nrm chk g H R c delta = Inr (p, direct, iter, flag)"
  shows "chk p c"
proof -
  from assms(2) obtain z where
    run: "pcg_for (pcg_iteration nrm chk H R c delta) [0..<length g] None
            (zeros (length g), vneg g, z, z, dot (vneg g) z) = Inr (p, direct, iter, flag)"
    by (rule implimentation_loop)
  show ?thesis
    by (rule pcg_for_invariant[OF run, where Q="\<lambda>q. chk q c"]) (use assms(1) in simp_all)
qed

theorem implimentation_feasible_witness:
  "feasible (zeros (length [1::real])) unbounded1 \<and>
   implimentation float64_norm feasible [1] [[1]] [1] unbounded1 1 =
     Inr ([-1], None, 0, RESIDUAL_CONVERGENCE) \<and>
   feasible [-1] unbounded1"
proof -
  have z: "feasible (zeros (length [1::real])) unbounded1"
    by (simp add: unbounded1_def array_defs)
  from implimentation_feasible[OF z implimentation_one] z implimentation_one
  show ?thesis by simp
qed

text \<open>
  Claim C5 says that a run of all \<open>n\<close> passes without an early exit reports the iteration
  count \<open>n\<close>. The return after the loop reports the loop variable instead, which holds the
  last index \<open>n - 1\<close>. Here \<open>n = 1\<close>: the single pass goes on to the end of its body, and
  the run reports 0.
\<close>

theorem implimentation_full_run_reports_last_index:
  "pcg_iteration float64_norm feasible [[1]] [1] unbounded1 1 0 ([0], [-1], [-1], [-1], 1) =
     Inr (Continue ([-1], [0], [0], [0], 0)) \<and>
   implimentation float64_norm feasible [1] [[1]] [1] unbounded1 1 =
     Inr ([-1], None, 0, RESIDUAL_CONVERGENCE)"
  by (simp add: implimentation_def unbounded1_def array_defs sqrt_eps Let_def
                float64_norm_minus_one)

text \<open>No return of the solver reports a count as large as \<open>n\<close>.\<close>

lemma pcg_for_iter_bound:
  assumes "pcg_for (pcg_iteration nrm chk H R c delta) is lv vars = Inr (p', d', it, fl)"
    and "\<forall>i\<in>set is. i < n" and "\<forall>i. lv = Some i \<longrightarrow> i < n"
  shows "it < n"
  using assms
proof (induction "is" arbitrary: lv vars)
  case Nil
  then show ?case by (cases vars) (auto split: option.splits)
next
  case (Cons i "is")
  obtain p r z d i1 where vars: "vars = (p, r, z, d, i1)" by (cases vars)
  show ?case
  proof (cases "pcg_iteration nrm chk H R c delta i vars")
    case (Inl e)
    with Cons.prems show ?thesis by simp
  next
    case (Inr step)
    show ?thesis
    proof (cases step)
      case (Return out)
      with Inr Cons.prems(1)
      have "pcg_iteration nrm chk H R c delta i (p, r, z, d, i1) = Inr (Return (p', d', it, fl))"
        by (simp add: vars)
      from pcg_iteration_Return[OF this] Cons.prems(2) show ?thesis by simp
    next
      case (Continue vars')
      with Inr Cons.prems(1)
      have "pcg_for (pcg_iteration nrm chk H R c delta) is (Some i) vars' = Inr (p', d', it, fl)"
        by simp
      then show ?thesis using Cons.IH[of "Some i" vars'] Cons.prems(2) by simp
    qed
  qed
qed

lemma implimentation_iter_less:
  assumes "implimentation nrm chk g H R c delta = Inr (p, direct, iter, flag)"
  shows "iter < length g"
proof -
  from assms obtain z where
    run: "pcg_for (pcg_iteration nrm chk H R c delta) [0..<length g] None
            (zeros (length g), vneg g, z, z, dot (vneg g) z) = Inr (p, direct, iter, flag)"
    by (rule implimentation_loop)
  show ?thesis by (rule pcg_for_iter_bound[OF run]) simp_all
qed

text \<open>
  Claim C9 says that on the zero gradient, with a positive definite \<open>H\<close> and a positive
  \<open>R\<close>, the solver returns \<open>p = 0\<close> with \<open>RESIDUAL_CONVERGENCE\<close> and the count 0. For the
  gradient of length 0 (where every \<open>H\<close> of shape \<open>(0, 0)\<close> is positive definite and every
  \<open>R\<close> of shape \<open>(0,)\<close> is positive) the loop has no pass, the return after it reads the
  unbound loop variable, and the solver raises.
\<close>

theorem implimentation_zero_gradient_empty:
  "implimentation float64_norm feasible [] [] [] ([], [], [], []) 1 = Inl UnboundLocalError"
  by (simp add: implimentation_def array_defs)

text \<open>For every other length the solver does what the claim says, whatever \<open>H\<close> is.\<close>

lemma implimentation_zero_gradient_nonempty:
  assumes "0 < length g" and "g = zeros (length g)"
    and "shape_matrix (length g) (length g) H" and "length R = length g"
    and "shape_constraints (length g) c" and "\<forall>a\<in>set R. 0 < a"
  shows "implimentation nrm chk g H R c delta =
         Inr (zeros (length g), None, 0, RESIDUAL_CONVERGENCE)"
proof -
  let ?n = "length g"
  from assms(6) have "0 \<notin> set R" by auto
  with assms(2,4) have z: "vdiv (vneg g) R = Inr (zeros ?n)"
    by (metis vdiv_def vneg_zeros map2_divide_zeros)
  have u: "[0..<?n] = 0 # [1..<?n]"
    using assms(1) by (simp add: upt_conv_Cons)
  have e: "(0::real) < sqrt eps" by (simp add: sqrt_eps)
  have "pcg_for (pcg_iteration nrm chk H R c delta) [0..<?n] None
          (zeros ?n, vneg g, zeros ?n, zeros ?n, dot (vneg g) (zeros ?n))
        = Inr (zeros ?n, None, 0, RESIDUAL_CONVERGENCE)"
    unfolding u using assms(1) e by (simp add: max_abs_zeros)
  then show ?thesis
    using assms(3,4,5) z by (simp add: implimentation_def Let_def)
qed

section \<open>Shifted constraints\<close>

lemma dot_vadd:
  assumes "length row = length x" and "length x = length p"
  shows "dot row (vadd x p) = dot row x + dot row p"
  using assms
  by (induction row x p rule: list_induct3) (simp_all add: dot_def vadd_def algebra_simps)

lemma bound_le_real_shift:
  "bound_le_real l (a + q) \<longleftrightarrow> bound_le_real (exact_bound_minus l a) q"
  by (cases l) auto

lemma real_le_bound_shift:
  "real_le_bound (a + q) u \<longleftrightarrow> real_le_bound q (exact_bound_minus u a)"
  by (cases u) auto

lemma rows_shift:
  assumes "list_all (\<lambda>row. length row = length x) A" and "length A = length b"
    and "length x = length p"
  shows "list_all2 (\<le>) (matvec A (vadd x p)) b \<longleftrightarrow>
         list_all2 (\<le>) (matvec A p) (map2 (-) b (matvec A x))"
proof -
  have row: "dot (A ! i) (vadd x p) = dot (A ! i) x + dot (A ! i) p" if "i < length A" for i
    using that assms(1,3) by (intro dot_vadd) (simp_all add: list_all_length)
  show ?thesis
    using assms(2) row by (auto simp: list_all2_conv_all_nth matvec_def)
qed

lemma lower_shift:
  assumes "length lb = length x" and "length x = length p"
  shows "list_all2 bound_le_real lb (vadd x p) \<longleftrightarrow>
         list_all2 bound_le_real (map2 exact_bound_minus lb x) p"
  using assms by (auto simp: list_all2_conv_all_nth vadd_def bound_le_real_shift)

lemma upper_shift:
  assumes "length ub = length x" and "length x = length p"
  shows "list_all2 real_le_bound (vadd x p) ub \<longleftrightarrow>
         list_all2 real_le_bound p (map2 exact_bound_minus ub x)"
  using assms by (auto simp: list_all2_conv_all_nth vadd_def real_le_bound_shift)

text \<open>Where no difference is rounded, the float64 differences are the exact ones.\<close>

lemma map2_agree:
  assumes "list_all2 (\<lambda>a b. f a b = g a b) xs ys"
  shows "map2 f xs ys = map2 g xs ys"
  using assms by (induction rule: list_all2_induct) simp_all

text \<open>
  Claim C6, as the code has it. For a constraint bundle \<open>(A, b, lb, ub)\<close>, a point \<open>x\<close> and
  a step \<open>p\<close> of matching shapes: if the product \<open>A @ x\<close> and the differences \<open>b - A @ x\<close>,
  \<open>lb - x\<close> and \<open>ub - x\<close> are computed without rounding error, then \<open>x + p\<close> is feasible in
  the bundle if and only if \<open>p\<close> is feasible in the shifted bundle that the code builds at
  \<open>x\<close>.
\<close>

theorem shift_feasible:
  assumes "shape_constraints (length x) (A, b, lb, ub)" and "length p = length x"
    and "matmul A x = matvec A x"
    and "list_all2 (\<lambda>bi ai. float64 (bi - ai) = bi - ai) b (matvec A x)"
    and "list_all2 (\<lambda>l a. bound_minus l a = exact_bound_minus l a) lb x"
    and "list_all2 (\<lambda>u a. bound_minus u a = exact_bound_minus u a) ub x"
  shows "feasible (vadd x p) (A, b, lb, ub) \<longleftrightarrow>
         feasible p (shift matmul (A, b, lb, ub) x)"
proof -
  from assms(1,2) have rows: "list_all (\<lambda>row. length row = length x) A" "length A = length b"
    and lens: "length lb = length x" "length ub = length x" "length x = length p"
    by (simp_all add: shape_matrix_def)
  have b': "map2 (\<lambda>bi ai. float64 (bi - ai)) b (matmul A x) = map2 (-) b (matvec A x)"
    using map2_agree[OF assms(4)] by (simp only: assms(3))
  have l': "map2 bound_minus lb x = map2 exact_bound_minus lb x"
    by (rule map2_agree[OF assms(5)])
  have u': "map2 bound_minus ub x = map2 exact_bound_minus ub x"
    by (rule map2_agree[OF assms(6)])
  have eq: "shift matmul (A, b, lb, ub) x =
            (A, map2 (-) b (matvec A x), map2 exact_bound_minus lb x,
             map2 exact_bound_minus ub x)"
    by (simp only: shift.simps b' l' u')
  show ?thesis
    unfolding eq
    using rows_shift[OF rows lens(3)] lower_shift[OF lens(1,3)] upper_shift[OF lens(2,3)]
    by simp
qed

theorem shift_feasible_witness:
  "shape_constraints (length [1::real, 1]) box2 \<and> length [1::real, 0] = length [1::real, 1] \<and>
   float64_matvec [[1, 1]] [1, 1] = matvec [[1, 1]] [1, 1] \<and>
   list_all2 (\<lambda>bi ai. float64 (bi - ai) = bi - ai) [3] (matvec [[1, 1]] [1, 1]) \<and>
   list_all2 (\<lambda>l a. bound_minus l a = exact_bound_minus l a) [Fin 0, MInf] [1, 1] \<and>
   list_all2 (\<lambda>u a. bound_minus u a = exact_bound_minus u a) [Fin 2, PInf] [1, 1] \<and>
   feasible (vadd [1, 1] [1, 0]) box2 \<and>
   feasible [1, 0] (shift float64_matvec box2 [1, 1]) \<and>
   \<not> feasible (vadd [1, 1] [1, 1]) box2 \<and>
   \<not> feasible [1, 1] (shift float64_matvec box2 [1, 1])"
proof -
  have s: "shape_constraints (length [1::real, 1]) box2"
    by (simp add: box2_def shape_matrix_def)
  have len: "length [1::real, 0] = length [1::real, 1]" "length [1::real, 1] = length [1::real, 1]"
    by simp_all
  have m: "float64_matvec [[1, 1]] [1, 1] = matvec [[1, 1]] [1, 1]"
    by (simp add: float64_matvec_def float64_dot_def matvec_def dot_def float64_one float64_two)
  have b: "list_all2 (\<lambda>bi ai. float64 (bi - ai) = bi - ai) [3] (matvec [[1, 1]] [1, 1])"
    by (simp add: matvec_def dot_def float64_one)
  have l: "list_all2 (\<lambda>l a. bound_minus l a = exact_bound_minus l a) [Fin 0, MInf] [1, 1]"
    by (simp add: float64_minus_one)
  have u: "list_all2 (\<lambda>u a. bound_minus u a = exact_bound_minus u a) [Fin 2, PInf] [1, 1]"
    by (simp add: float64_one)
  have f: "feasible (vadd [1, 1] [1, 0]) box2" "\<not> feasible (vadd [1, 1] [1, 1]) box2"
    by (simp_all add: box2_def matvec_def dot_def vadd_def)
  have i1: "feasible (vadd [1, 1] [1, 0]) box2 \<longleftrightarrow>
            feasible [1, 0] (shift float64_matvec box2 [1, 1])"
    using s unfolding box2_def
    by (intro shift_feasible[where matmul = float64_matvec] len(1) m b l u)
  have i2: "feasible (vadd [1, 1] [1, 1]) box2 \<longleftrightarrow>
            feasible [1, 1] (shift float64_matvec box2 [1, 1])"
    using s unfolding box2_def
    by (intro shift_feasible[where matmul = float64_matvec] len(2) m b l u)
  from i1 i2 f have g: "feasible [1, 0] (shift float64_matvec box2 [1, 1])"
    "\<not> feasible [1, 1] (shift float64_matvec box2 [1, 1])"
    by blast+
  from s len(1) m b l u f g show ?thesis by blast
qed

text \<open>
  Claim C6 as stated fails for the bundle the code builds. With the upper bound 0.1 and
  \<open>x = -0.2\<close> (the float64 numbers nearest to them), the float64 difference \<open>ub - x\<close> is
  rounded up; the step \<open>p\<close> equal to it is feasible in the shifted bundle, while \<open>x + p\<close>,
  which is a float64 number, exceeds the upper bound.
\<close>

theorem shift_feasible_counterexample:
  "shape_constraints (length [- fifth]) capped1 \<and>
   float64 tenth = tenth \<and> float64 fifth = fifth \<and>
   shift float64_matvec capped1 [- fifth] =
     ([], [], [MInf], [Fin (5404319552844596 / 2 ^ 54)]) \<and>
   feasible [5404319552844596 / 2 ^ 54] (shift float64_matvec capped1 [- fifth]) \<and>
   \<not> feasible (vadd [- fifth] [5404319552844596 / 2 ^ 54]) capped1 \<and>
   float64 (- fifth + 5404319552844596 / 2 ^ 54) = - fifth + 5404319552844596 / 2 ^ 54"
proof -
  have "float64 (tenth - - fifth) = 5404319552844596 / 2 ^ 54"
    using float64_tenth_plus_fifth by (simp only: diff_minus_eq_add)
  then have sh: "shift float64_matvec capped1 [- fifth] =
                 ([], [], [MInf], [Fin (5404319552844596 / 2 ^ 54)])"
    by (simp add: capped1_def float64_matvec_def del: diff_minus_eq_add)
  have sum: "- fifth + 5404319552844596 / 2 ^ 54 = (1801439850948199 / 2 ^ 54 :: real)"
    by (simp add: fifth_def)
  have fl: "float64 (1801439850948199 / 2 ^ 54) = 1801439850948199 / 2 ^ 54"
    using float64_binade[of "- 4" "1801439850948199 / 2 ^ 54"]
    by (simp add: rne_def power_int_minus)
  have nf: "\<not> feasible (vadd [- fifth] [5404319552844596 / 2 ^ 54]) capped1"
    by (simp add: capped1_def vadd_def matvec_def tenth_def fifth_def)
  have sc: "shape_constraints (length [- fifth]) capped1"
    by (simp add: capped1_def shape_matrix_def)
  have fs: "feasible [5404319552844596 / 2 ^ 54] (shift float64_matvec capped1 [- fifth])"
    by (simp only: sh) (simp add: matvec_def)
  have ex: "float64 (- fifth + 5404319552844596 / 2 ^ 54) = - fifth + 5404319552844596 / 2 ^ 54"
    by (simp only: sum fl)
  from sc float64_tenth float64_fifth sh fs nf ex show ?thesis by blast
qed

section \<open>Properties of the trust-region driver\<close>


subsection \<open>The Hessian and its flag\<close>

declare main_loop.simps [simp del]

lemma make_hess_Inr:
  assumes "make_hess E c opts y t = Inr t'"
  shows "\<not> hessian_is_up_to_date t \<and>
         t' = t\<lparr>cur_H := make_hessian E (gradient E) y c opts, hessian_is_up_to_date := True,
                times_after_hessian_shaking := 0\<rparr>"
  using assms by (auto simp: make_hess_def split: if_splits)

lemma make_hess_Inl:
  assumes "make_hess E c opts y t = Inl e"
  shows "hessian_is_up_to_date t \<and> e = AssertionError Hessian_not_up_to_date"
  using assms by (auto simp: make_hess_def split: if_splits)

lemma convergence_check_Return:
  assumes "convergence_check E c opts flag sz t = Inr (Return (res, t'))"
  shows "hessian_is_up_to_date t' \<and> res = make_result t' True"
  using assms by (auto simp: convergence_check_def split: if_splits sum.splits)

lemma stall_check_Return:
  assumes "stall_check E c opts t = Inr (Return (res, t'))"
  shows "hessian_is_up_to_date t' \<and> res = make_result t' True"
  using assms by (auto simp: stall_check_def split: if_splits sum.splits option.splits)

text \<open>Every return from inside a pass reports success, with the Hessian up to date.\<close>

lemma iteration_Return:
  assumes "iteration E c opts hs ig s = Inr (Return (res, s'))"
  shows "hessian_is_up_to_date s' \<and> res = make_result s' True"
  using assms
  by (auto simp: iteration_def candidate_def Let_def
           split: sum.splits option.splits flow.splits
           dest: convergence_check_Return stall_check_Return)

lemma main_loop_fails:
  assumes "cur_delta t < tol_step opts \<or> cur_iter t > max_iter opts"
  shows "main_loop E c opts hs ig t = Inr (make_result t False, t)"
  using assms by (auto simp: main_loop.simps[of E c opts hs ig t])


lemma main_loop_success:
  assumes "main_loop E c opts hs ig s = Inr (res, s')" and "success res"
  shows "hessian_is_up_to_date s' \<and> res = make_result s' True"
  using assms
proof (induction E c opts hs ig s rule: main_loop.induct)
  case (1 E c opts hs ig s)
  show ?case
  proof (cases "cur_delta s < tol_step opts \<or> cur_iter s > max_iter opts")
    case True
    from main_loop_fails[OF True, of E c hs ig] "1.prems" show ?thesis
      by (simp add: make_result_def)
  next
    case False
    show ?thesis
    proof (cases "iteration E c opts hs ig s")
      case (Inl e)
      with False "1.prems" show ?thesis by (simp add: main_loop.simps[of E c opts hs ig s])
    next
      case (Inr fl)
      show ?thesis
      proof (cases fl)
        case (Return r)
        with Inr False "1.prems" have "iteration E c opts hs ig s = Inr (Return (res, s'))"
          by (simp add: main_loop.simps[of E c opts hs ig s])
        then show ?thesis by (rule iteration_Return)
      next
        case (Continue t)
        with Inr False "1.prems" have "main_loop E c opts hs ig t = Inr (res, s')"
          by (simp add: main_loop.simps[of E c opts hs ig s])
        with "1.IH"[of fl t] False Inr Continue "1.prems"(2) show ?thesis by simp
      qed
    qed
  qed
qed

lemma trust_region_run_result:
  "trust_region E x c opts = Inr res \<longleftrightarrow> (\<exists>s. trust_region_run E x c opts = Inr (res, s))"
  by (auto simp: trust_region_def split: sum.splits)

subsection \<open>Example runs\<close>

lemma best_policy_zero:
  "best_policy (flat_externals g h) [0] [[1]] [1] unbounded1 d =
   Inr (PCG_Status_init None None 0 RESIDUAL_CONVERGENCE)"
  by (simp add: best_policy_def flat_externals_def implimentation_zero array_defs)

lemma best_policy_one:
  "best_policy (flat_externals g h) [1] [[1]] [1] unbounded1 1 =
   Inr (PCG_Status_init (Some [-1]) (Some (- 1 / 2)) 0 RESIDUAL_CONVERGENCE)"
  by (simp add: best_policy_def flat_externals_def implimentation_one array_defs model_fval_def)

lemma pcg_zero:
  "pcg (flat_externals g h) [0] [[1]] unbounded1 d =
   Inr (PCG_Status_init None None 0 RESIDUAL_CONVERGENCE)"
proof -
  have "hessian_precon (flat_externals g h) [[1]] = [1]"
    "gradient_precon (flat_externals g h) [0] = [1]"
    by (simp_all add: flat_externals_def)
  then show ?thesis
    by (simp add: pcg_def best_policy_zero)
       (simp add: unbounded1_def shape_matrix_def PCG_Status_init_def)
qed

lemma pcg_one:
  "pcg (flat_externals g h) [1] [[1]] unbounded1 1 =
   Inr (PCG_Status_init (Some [-1]) (Some (- 1 / 2)) 0 RESIDUAL_CONVERGENCE)"
proof -
  have "hessian_precon (flat_externals g h) [[1]] = [1]"
    "gradient_precon (flat_externals g h) [1] = [1]"
    by (simp_all add: flat_externals_def)
  then show ?thesis
    by (simp add: pcg_def best_policy_one)
       (simp add: unbounded1_def shape_matrix_def PCG_Status_init_def)
qed

lemma shape_unbounded1: "shape_constraints (length [0::real]) unbounded1"
  by (simp add: unbounded1_def shape_matrix_def)

lemma initialize_flat:
  assumes "init_delta opts = 1"
  shows "initialize (flat_externals g 1) [0] unbounded1 opts = Inr (entry_locals g)"
  using assms
  by (simp add: initialize_def flat_externals_def unbounded1_def get_info_def make_hess_def
                entry_locals_def array_defs)

subsection \<open>The ratio of a pass\<close>






subsection \<open>Success needs a fresh Hessian\<close>

text \<open>The first pass from \<open>x = [0]\<close> when the gradient is reported as \<open>[1]\<close>: the step
  \<open>[-1]\<close> does not lower the flat objective, the radius shrinks, and the gradient test of the
  convergence check, under the loose tolerance, returns success.\<close>

lemma iteration_converged:
  "iteration (flat_externals 1 1) unbounded1 loose_options 1 1 (entry_locals 1) =
   Inr (Return (make_result (shrunk_locals 1) True, shrunk_locals 1))"
proof -
  have d: "deferred_refresh (flat_externals 1 1) unbounded1 loose_options 1 (entry_locals 1) =
           Inr (entry_locals 1)"
    by (simp add: deferred_refresh_def entry_locals_def)
  have p: "pcg (flat_externals 1 1) (gvalue (cur_grad (entry_locals 1)))
             (cur_H (entry_locals 1)) (constr_shifted (entry_locals 1))
             (cur_delta (entry_locals 1)) =
           Inr (PCG_Status_init (Some [-1]) (Some (- 1 / 2)) 0 RESIDUAL_CONVERGENCE)"
    using pcg_one[of 1 1] by (simp add: entry_locals_def)
  have o: "objective (flat_externals 1 1) y = 0" for y
    by (simp add: flat_externals_def)
  show ?thesis
    unfolding iteration_def d
    by (simp add: p)
       (simp add: PCG_Status_init_def o ratio_def candidate_def radius_update_def accept_def
                  convergence_check_def entry_locals_def shrunk_locals_def loose_options_def
                  Trust_Region_Options_init_def dot_def Let_def)
qed

lemma trust_region_run_converged:
  "trust_region_run (flat_externals 1 1) [0] unbounded1 loose_options =
   Inr (make_result (shrunk_locals 1) True, shrunk_locals 1)"
proof -
  have i: "initialize (flat_externals 1 1) [0] unbounded1 loose_options = Inr (entry_locals 1)"
    by (rule initialize_flat) (simp add: loose_options_def Trust_Region_Options_init_def)
  have r: "resolve_shaking loose_options [0] = 1"
    by (simp add: resolve_shaking_def loose_options_def Trust_Region_Options_init_def)
  have g: "infnorm (cur_grad (entry_locals 1)) = 1"
    by (simp add: entry_locals_def)
  have "main_loop (flat_externals 1 1) unbounded1 loose_options 1 1 (entry_locals 1) =
        Inr (make_result (shrunk_locals 1) True, shrunk_locals 1)"
    by (subst main_loop.simps)
       (simp add: iteration_converged,
        simp add: entry_locals_def loose_options_def Trust_Region_Options_init_def)
  with shape_unbounded1 show ?thesis
    by (simp add: trust_region_run_def i r g)
qed

text \<open>
  Claim C3. Whenever \<open>trust_region\<close> returns a result with \<open>success = true\<close>, the flag
  \<open>hessian_is_up_to_date\<close> is true at the instant of the return.
\<close>

theorem trust_region_success_fresh:
  assumes "trust_region_run E x c opts = Inr (res, s)" and "success res"
  shows "hessian_is_up_to_date s \<and> res = make_result s True"
proof -
  from assms(1) obtain s0 where
    "main_loop E c opts (resolve_shaking opts x) (infnorm (cur_grad s0)) s0 = Inr (res, s)"
    by (auto simp: trust_region_run_def split: if_splits sum.splits)
  from main_loop_success[OF this assms(2)] show ?thesis .
qed

theorem trust_region_success_fresh_witness:
  "trust_region_run (flat_externals 1 1) [0] unbounded1 loose_options =
     Inr (make_result (shrunk_locals 1) True, shrunk_locals 1) \<and>
   success (make_result (shrunk_locals 1) True) \<and>
   hessian_is_up_to_date (shrunk_locals 1)"
proof -
  have s: "success (make_result (shrunk_locals 1) True)"
    by (simp add: make_result_def)
  from trust_region_success_fresh[OF trust_region_run_converged s] s
    trust_region_run_converged
  show ?thesis by simp
qed

subsection \<open>The pass without a step\<close>

text \<open>
  Claim C4, as the code has it. In a pass in which the PCG wrapper returns no step while the
  Hessian is stale (the deferred refresh has not fired), \<open>H\<close> is recomputed at the current
  \<open>x\<close>, and that recomputation, being \<open>make_hess\<close>, marks the Hessian up to date and resets
  \<open>times_after_hessian_shaking\<close> to 0; the radius and the iterate are unchanged.
\<close>

theorem no_step_stale_resets_counter:
  assumes "\<not> hessian_is_up_to_date s"
    and "times_after_hessian_shaking s < hessian_shaking"
    and "pcg E (gvalue (cur_grad s)) (cur_H s) (constr_shifted s) (cur_delta s) = Inr status"
    and "status_x status = None"
  shows "iteration E c opts hessian_shaking ig s =
         Inr (Continue (s\<lparr>cur_iter := cur_iter s + 1,
                          cur_H := make_hessian E (gradient E) (cur_x s) c opts,
                          hessian_is_up_to_date := True,
                          times_after_hessian_shaking := 0\<rparr>))"
proof -
  from assms(2) have d: "deferred_refresh E c opts hessian_shaking s = Inr s"
    by (simp add: deferred_refresh_def)
  show ?thesis
    unfolding iteration_def d using assms(1,3,4)
    by (simp add: no_step_def make_hess_def)
qed

lemma pcg_stale:
  "pcg (flat_externals 0 2) (gvalue (cur_grad stale_locals)) (cur_H stale_locals)
     (constr_shifted stale_locals) (cur_delta stale_locals) =
   Inr (PCG_Status_init None None 0 RESIDUAL_CONVERGENCE)"
  using pcg_zero[of 0 2 1] by (simp add: stale_locals_def)

theorem no_step_stale_resets_counter_witness:
  "\<not> hessian_is_up_to_date stale_locals \<and>
   times_after_hessian_shaking stale_locals < 5 \<and>
   status_x (PCG_Status_init None None 0 RESIDUAL_CONVERGENCE) = None \<and>
   iteration (flat_externals 0 2) unbounded1 (Trust_Region_Options_init 10) 5 0 stale_locals =
     Inr (Continue
       \<lparr>cur_x = [0], cur_fval = 0, cur_grad = \<lparr>gvalue = [0], infnorm = 0\<rparr>, cur_H = [[2]],
        constr_shifted = unbounded1, cur_delta = 1, cur_iter = 4,
        hessian_is_up_to_date = True, times_after_hessian_shaking = 0,
        old_fval = 0, stall_iter = 0\<rparr>)"
proof -
  have a: "\<not> hessian_is_up_to_date stale_locals" "times_after_hessian_shaking stale_locals < 5"
    by (simp_all add: stale_locals_def)
  have b: "status_x (PCG_Status_init None None 0 RESIDUAL_CONVERGENCE) = None"
    by (simp add: PCG_Status_init_def)
  from no_step_stale_resets_counter[OF a pcg_stale b,
         of unbounded1 "Trust_Region_Options_init 10" 0] a b
  show ?thesis by (simp add: stale_locals_def flat_externals_def)
qed

text \<open>
  Claim C4 as stated fails: with the Hessian stale and the counter at 1 on entry to the pass,
  the wrapper returns no step, the counter is 2 when the branch is entered, and it is 0, not
  2, when the branch is left.
\<close>

theorem no_step_stale_counter_counterexample:
  "\<not> hessian_is_up_to_date stale_locals \<and>
   times_after_hessian_shaking stale_locals + 1 = 2 \<and>
   pcg (flat_externals 0 2) (gvalue (cur_grad stale_locals)) (cur_H stale_locals)
     (constr_shifted stale_locals) (cur_delta stale_locals) =
     Inr (PCG_Status_init None None 0 RESIDUAL_CONVERGENCE) \<and>
   no_step (flat_externals 0 2) unbounded1 (Trust_Region_Options_init 10)
     (stale_locals\<lparr>cur_iter := 4, times_after_hessian_shaking := 2\<rparr>) =
     Inr (stale_locals\<lparr>cur_iter := 4, times_after_hessian_shaking := 0, cur_H := [[2]],
                       hessian_is_up_to_date := True\<rparr>) \<and>
   iteration (flat_externals 0 2) unbounded1 (Trust_Region_Options_init 10) 5 0 stale_locals =
     Inr (Continue
       (stale_locals\<lparr>cur_iter := 4, times_after_hessian_shaking := 0, cur_H := [[2]],
                      hessian_is_up_to_date := True\<rparr>)) \<and>
   times_after_hessian_shaking
     (stale_locals\<lparr>cur_iter := 4, times_after_hessian_shaking := 0, cur_H := [[2]],
                    hessian_is_up_to_date := True\<rparr>) \<noteq> 2"
proof -
  have d: "deferred_refresh (flat_externals 0 2) unbounded1 (Trust_Region_Options_init 10) 5
             stale_locals = Inr stale_locals"
    by (simp add: deferred_refresh_def stale_locals_def)
  have n: "no_step (flat_externals 0 2) unbounded1 (Trust_Region_Options_init 10)
             (stale_locals\<lparr>cur_iter := 4, times_after_hessian_shaking := 2\<rparr>) =
           Inr (stale_locals\<lparr>cur_iter := 4, times_after_hessian_shaking := 0, cur_H := [[2]],
                             hessian_is_up_to_date := True\<rparr>)"
    by (simp add: no_step_def make_hess_def stale_locals_def flat_externals_def)
  have i: "iteration (flat_externals 0 2) unbounded1 (Trust_Region_Options_init 10) 5 0
             stale_locals =
           Inr (Continue
             (stale_locals\<lparr>cur_iter := 4, times_after_hessian_shaking := 0, cur_H := [[2]],
                            hessian_is_up_to_date := True\<rparr>))"
    unfolding iteration_def d
    by (simp add: pcg_stale)
       (simp add: PCG_Status_init_def no_step_def make_hess_def stale_locals_def
                  flat_externals_def)
  have a: "\<not> hessian_is_up_to_date stale_locals"
    "times_after_hessian_shaking stale_locals + 1 = 2"
    by (simp_all add: stale_locals_def)
  from a pcg_stale n i show ?thesis by simp
qed

subsection \<open>The exits without success\<close>







subsection \<open>The assertion of \<open>make_hess\<close>\<close>

lemma max_abs_no_assertion: "max_abs z \<noteq> Inl (AssertionError a)"
  by (cases z) simp_all

lemma vdiv_no_assertion: "vdiv u R \<noteq> Inl (AssertionError a)"
  by (simp add: vdiv_def)

lemma pcg_iteration_no_assertion:
  "pcg_iteration nrm chk H R c delta iter vars \<noteq> Inl (AssertionError a)"
proof -
  obtain p r z d i1 where "vars = (p, r, z, d, i1)" by (cases vars)
  then show ?thesis
    by (auto simp: Let_def max_abs_no_assertion vdiv_no_assertion split: sum.splits)
qed

lemma pcg_for_no_assertion:
  "pcg_for (pcg_iteration nrm chk H R c delta) is lv vars \<noteq> Inl (AssertionError a)"
proof (induction "is" arbitrary: lv vars)
  case Nil
  show ?case by (cases vars) (auto split: option.splits)
next
  case (Cons i "is")
  show ?case
    using Cons.IH pcg_iteration_no_assertion[of nrm chk H R c delta i vars a]
    by (auto split: sum.splits flow.splits)
qed

lemma implimentation_no_assertion:
  "implimentation nrm chk g H R c delta \<noteq> Inl (AssertionError a)"
  by (auto simp: implimentation_def Let_def vdiv_no_assertion pcg_for_no_assertion
           split: sum.splits)

lemma best_policy_no_hessian_error:
  "best_policy E g H R c delta \<noteq> Inl (AssertionError Hessian_not_up_to_date)"
  by (auto simp: best_policy_def Let_def vdiv_no_assertion implimentation_no_assertion
           split: sum.splits prod.splits option.splits)

lemma pcg_no_hessian_error:
  "pcg E g H c delta \<noteq> Inl (AssertionError Hessian_not_up_to_date)"
  by (auto simp: pcg_def Let_def best_policy_no_hessian_error split: sum.splits option.splits)

text \<open>Each call of \<open>make_hess\<close> in the loop stands under a test that the flag is false.\<close>

lemma deferred_refresh_no_hessian_error:
  "deferred_refresh E c opts hs s \<noteq> Inl (AssertionError Hessian_not_up_to_date)"
  by (simp add: deferred_refresh_def make_hess_def)

lemma no_step_no_hessian_error:
  "no_step E c opts s \<noteq> Inl (AssertionError Hessian_not_up_to_date)"
  by (simp add: no_step_def make_hess_def)

lemma ratio_no_error: "ratio reduce pcg_fval \<noteq> Inl e"
  by (auto simp: ratio_def)

lemma radius_update_no_hessian_error:
  "radius_update E c opts rat sz s \<noteq> Inl (AssertionError Hessian_not_up_to_date)"
  by (simp add: radius_update_def make_hess_def)

lemma convergence_check_no_hessian_error:
  "convergence_check E c opts flag sz s \<noteq> Inl (AssertionError Hessian_not_up_to_date)"
  by (simp add: convergence_check_def make_hess_def)

lemma stall_check_no_hessian_error:
  "stall_check E c opts s \<noteq> Inl (AssertionError Hessian_not_up_to_date)"
  by (simp add: stall_check_def make_hess_def split: option.splits)

lemma iteration_no_hessian_error:
  "iteration E c opts hs ig s \<noteq> Inl (AssertionError Hessian_not_up_to_date)"
proof
  assume a: "iteration E c opts hs ig s = Inl (AssertionError Hessian_not_up_to_date)"
  note no = deferred_refresh_no_hessian_error pcg_no_hessian_error no_step_no_hessian_error
    radius_update_no_hessian_error convergence_check_no_hessian_error
    stall_check_no_hessian_error ratio_no_error
  from a show False
    by (auto simp: iteration_def candidate_def Let_def no
             split: sum.splits option.splits flow.splits)
qed

lemma main_loop_no_hessian_error:
  "main_loop E c opts hs ig s \<noteq> Inl (AssertionError Hessian_not_up_to_date)"
proof (induction E c opts hs ig s rule: main_loop.induct)
  case (1 E c opts hs ig s)
  show ?case
    using "1.IH" iteration_no_hessian_error[of E c opts hs ig s]
    by (subst main_loop.simps) (auto split: sum.splits flow.splits)
qed

text \<open>At the first call, in the initialisation, the flag still has its initial value.\<close>

lemma initialize_no_hessian_error:
  "initialize E x c opts \<noteq> Inl (AssertionError Hessian_not_up_to_date)"
  by (simp add: initialize_def Let_def make_hess_def split: prod.splits)

text \<open>
  Claim C10. At every call of \<open>make_hess\<close> by the driver the flag \<open>hessian_is_up_to_date\<close> is
  false, so the assertion \<open>not hessian_is_up_to_date\<close> fails on no execution of
  \<open>trust_region\<close>.
\<close>

theorem trust_region_hessian_assertion_holds:
  "trust_region E x c opts \<noteq> Inl (AssertionError Hessian_not_up_to_date)"
  by (auto simp: trust_region_def trust_region_run_def initialize_no_hessian_error
                 main_loop_no_hessian_error
           split: sum.splits)

end
